theory Spec2Isabelle
  imports Complex_Main
begin

section \<open>Numbers and optional fields\<close>

text \<open>
  The TypeScript type \<open>number\<close> is modelled by \<^typ>\<open>real\<close>: the finite values, with
  exact arithmetic. \<open>NaN\<close>, the infinities and the rounding of doubles are outside the
  model; the points of the scenarios below have integer or dyadic coordinates. An optional
  field (\<open>radius?: number\<close>) is an \<open>option\<close>, with \<open>None\<close> for \<open>undefined\<close>.
  JavaScript's truthiness tests (\<open>!options.both\<close>, \<open>options.friction && ...\<close>,
  \<open>options.radius || ...\<close>) are written out: \<open>undefined\<close>, \<open>false\<close> and the number
  \<open>0\<close> are falsy.
\<close>

definition truthy_bool :: "bool option \<Rightarrow> bool" where
  "truthy_bool b = (case b of None \<Rightarrow> False | Some v \<Rightarrow> v)"

definition truthy_number :: "real option \<Rightarrow> bool" where
  "truthy_number n = (case n of None \<Rightarrow> False | Some v \<Rightarrow> v \<noteq> 0)"

text \<open>\<open>Math.round\<close>: the nearest integer, a tie going up.\<close>

definition Math_round :: "real \<Rightarrow> real" where
  "Math_round v = of_int \<lfloor>v + 1 / 2\<rfloor>"

text \<open>\<open>Math.atan2(y, x)\<close> on finite arguments, with \<open>Math.atan2(0, 0) = 0\<close>.\<close>

definition Math_atan2 :: "real \<Rightarrow> real \<Rightarrow> real" where
  "Math_atan2 b a =
     (if 0 < a then arctan (b / a)
      else if a < 0 then (if 0 \<le> b then arctan (b / a) + pi else arctan (b / a) - pi)
      else if 0 < b then pi / 2
      else if b < 0 then - (pi / 2)
      else 0)"

section \<open>Points\<close>

record Point =
  p_x :: real
  p_y :: real

text \<open>
  Modelled from the spec: the class \<open>LazyPoint\<close> of \<open>./LazyPoint\<close>, which \<open>LazyBrush.ts\<close>
  imports. Its operations follow section 4.1 of the specification. A \<open>LazyPoint\<close> owns one
  coordinate pair, so it is a \<^typ>\<open>Point\<close> here, and an operation that mutates its
  receiver returns the new value.
\<close>

definition LazyPoint :: "real \<Rightarrow> real \<Rightarrow> Point" where
  \<comment> \<open>Modelled from the spec: \<open>construct(x, y)\<close> creates a point at the given coordinates.\<close>
  "LazyPoint a b = \<lparr>p_x = a, p_y = b\<rparr>"

definition point_update :: "Point \<Rightarrow> Point \<Rightarrow> Point" where
  \<comment> \<open>Modelled from the spec: \<open>update(p)\<close> overwrites this point's coordinates with \<open>p\<close>'s.\<close>
  "point_update this p = this\<lparr>p_x := p_x p, p_y := p_y p\<rparr>"

definition equalsTo :: "Point \<Rightarrow> Point \<Rightarrow> bool" where
  \<comment> \<open>Modelled from the spec: exact (non-tolerant) equality on both coordinates.\<close>
  "equalsTo this p = (p_x this = p_x p \<and> p_y this = p_y p)"

definition getDistanceTo :: "Point \<Rightarrow> Point \<Rightarrow> real" where
  \<comment> \<open>Modelled from the spec: the Euclidean distance \<open>sqrt((x1-x2)\<^sup>2 + (y1-y2)\<^sup>2)\<close>.\<close>
  "getDistanceTo this other =
     sqrt ((p_x this - p_x other)\<^sup>2 + (p_y this - p_y other)\<^sup>2)"

definition getAngleTo :: "Point \<Rightarrow> Point \<Rightarrow> real" where
  \<comment> \<open>Modelled from the spec: the \<open>atan2\<close>-based direction of the vector pointing from
      \<open>other\<close> toward this point.\<close>
  "getAngleTo this other = Math_atan2 (p_y this - p_y other) (p_x this - p_x other)"

definition moveByAngle :: "real \<Rightarrow> real \<Rightarrow> real option \<Rightarrow> Point \<Rightarrow> Point" where
  \<comment> \<open>Modelled from the spec: displaces this point by \<open>len\<close> along \<open>ang\<close> in polar form
      (\<open>dx = cos(angle)*distance\<close>, \<open>dy = sin(angle)*distance\<close>); when a friction is
      provided the displacement is scaled by it, otherwise it is applied in full.\<close>
  "moveByAngle ang len fr this =
     (case fr of
        None \<Rightarrow> this\<lparr>p_x := p_x this + cos ang * len, p_y := p_y this + sin ang * len\<rparr>
      | Some f \<Rightarrow>
          this\<lparr>p_x := p_x this + cos ang * len * f, p_y := p_y this + sin ang * len * f\<rparr>)"

definition toObject :: "Point \<Rightarrow> Point" where
  \<comment> \<open>Modelled from the spec: an independent snapshot \<open>{x, y}\<close>.\<close>
  "toObject this = \<lparr>p_x = p_x this, p_y = p_y this\<rparr>"

section \<open>The controller\<close>

definition RADIUS_DEFAULT :: real where
  "RADIUS_DEFAULT = 30"

record LazyBrushOptions =
  opt_radius :: "real option"
  opt_enabled :: "bool option"
  opt_initialPoint :: "Point option"

record LazyBrushUpdateOptions =
  both :: "bool option"
  friction :: "real option"

text \<open>The call \<open>update(p)\<close> leaves \<open>options\<close> at its default \<open>{}\<close>.\<close>

definition no_options :: LazyBrushUpdateOptions where
  "no_options = \<lparr>both = None, friction = None\<rparr>"

text \<open>The fields of the class; \<open>priv_isEnabled\<close> and \<open>priv_hasMoved\<close> are \<open>_isEnabled\<close> and
  \<open>_hasMoved\<close>.\<close>

record LazyBrush =
  priv_isEnabled :: bool
  priv_hasMoved :: bool
  radius :: real
  pointer :: Point
  brush :: Point
  angle :: real
  distance :: real
  velocity :: Point

definition constructor :: "LazyBrushOptions \<Rightarrow> LazyBrush" where
  "constructor options =
     (let initialPoint =
            (case opt_initialPoint options of None \<Rightarrow> \<lparr>p_x = 0, p_y = 0\<rparr> | Some p \<Rightarrow> p)
      in \<lparr>priv_isEnabled = (opt_enabled options = Some True),
          priv_hasMoved = False,
          radius = (if truthy_number (opt_radius options)
                    then (case opt_radius options of Some r \<Rightarrow> r | None \<Rightarrow> RADIUS_DEFAULT)
                    else RADIUS_DEFAULT),
          pointer = LazyPoint (p_x initialPoint) (p_y initialPoint),
          brush = LazyPoint (p_x initialPoint) (p_y initialPoint),
          angle = 0,
          distance = 0,
          velocity = LazyPoint (p_x initialPoint) (p_y initialPoint)\<rparr>)"

definition enable :: "LazyBrush \<Rightarrow> LazyBrush" where
  "enable lb = lb\<lparr>priv_isEnabled := True\<rparr>"

definition disable :: "LazyBrush \<Rightarrow> LazyBrush" where
  "disable lb = lb\<lparr>priv_isEnabled := False\<rparr>"

definition isEnabled :: "LazyBrush \<Rightarrow> bool" where
  "isEnabled lb = priv_isEnabled lb"

definition setRadius :: "real \<Rightarrow> LazyBrush \<Rightarrow> LazyBrush" where
  "setRadius r lb = lb\<lparr>radius := r\<rparr>"

definition getRadius :: "LazyBrush \<Rightarrow> real" where
  "getRadius lb = radius lb"

definition getBrushCoordinates :: "LazyBrush \<Rightarrow> Point" where
  "getBrushCoordinates lb = toObject (brush lb)"

definition getPointerCoordinates :: "LazyBrush \<Rightarrow> Point" where
  "getPointerCoordinates lb = toObject (pointer lb)"

definition getAngle :: "LazyBrush \<Rightarrow> real" where
  "getAngle lb = angle lb"

definition getDistance :: "LazyBrush \<Rightarrow> real" where
  "getDistance lb = distance lb"

definition brushHasMoved :: "LazyBrush \<Rightarrow> bool" where
  "brushHasMoved lb = priv_hasMoved lb"

text \<open>
  The two local constants of \<open>update\<close>, \<open>isOutside\<close> and \<open>friction\<close>, as functions of what
  they read. In \<open>options.friction && options.friction < 1\<close> the first conjunct is a
  truthiness test, false for \<open>undefined\<close> and for 0.
\<close>

definition isOutside :: "real \<Rightarrow> real \<Rightarrow> bool" where
  "isOutside d r = (0 < Math_round ((d - r) * 10) / 10)"

definition clamp_friction :: "real option \<Rightarrow> real option" where
  "clamp_friction fr =
     (case fr of
        None \<Rightarrow> None
      | Some f \<Rightarrow>
          if truthy_number (Some f) \<and> f < 1 then Some (min (max f 0.01) 1) else None)"

text \<open>
  \<open>update\<close> returns its boolean result together with the controller after the call. The
  numbered states follow the assignments of the source in their order.
\<close>

definition update :: "Point \<Rightarrow> LazyBrushUpdateOptions \<Rightarrow> LazyBrush \<Rightarrow> bool \<times> LazyBrush" where
  "update newPointerPoint options lb0 =
     (let lb1 = lb0\<lparr>priv_hasMoved := False\<rparr> in
      if equalsTo (pointer lb1) newPointerPoint
         \<and> \<not> truthy_bool (both options)
         \<and> \<not> truthy_number (friction options)
      then (False, lb1)
      else
        let lb2 = lb1\<lparr>pointer := point_update (pointer lb1) newPointerPoint\<rparr> in
        if truthy_bool (both options)
        then (True, lb2\<lparr>priv_hasMoved := True,
                        brush := point_update (brush lb2) newPointerPoint\<rparr>)
        else if priv_isEnabled lb2
        then
          let lb3 = lb2\<lparr>distance := getDistanceTo (pointer lb2) (brush lb2)\<rparr>;
              lb4 = lb3\<lparr>angle := getAngleTo (pointer lb3) (brush lb3)\<rparr>;
              outside = isOutside (distance lb4) (radius lb4);
              fr = clamp_friction (friction options)
          in if outside
             then (True, lb4\<lparr>brush := moveByAngle (angle lb4) (distance lb4 - radius lb4)
                                        fr (brush lb4),
                             priv_hasMoved := True\<rparr>)
             else (True, lb4)
        else (True, lb2\<lparr>distance := 0, angle := 0,
                        brush := point_update (brush lb2) newPointerPoint,
                        priv_hasMoved := True\<rparr>))"

text \<open>A sequence of calls \<open>update(p)\<close>, with the controller after each call.\<close>

fun updates :: "Point list \<Rightarrow> LazyBrush \<Rightarrow> LazyBrush list" where
  "updates [] lb = []"
| "updates (p # ps) lb = (let lb' = snd (update p no_options lb) in lb' # updates ps lb')"

section \<open>Scenarios and sequences of calls\<close>

text \<open>
  A controller as the scenarios of the specification construct it: radius 30 and both
  points at the origin, with lazy mode on or off.
\<close>

definition origin_brush :: "bool \<Rightarrow> LazyBrush" where
  "origin_brush en =
     constructor \<lparr>opt_radius = Some 30, opt_enabled = Some en,
                  opt_initialPoint = Some \<lparr>p_x = 0, p_y = 0\<rparr>\<rparr>"

text \<open>
  The containment condition on a sequence of calls \<open>update(p)\<close>: at every call the
  Euclidean distance from the new pointer position to the brush, which is what \<open>update\<close>
  stores in \<open>distance\<close>, is at most the radius.
\<close>

fun contained :: "Point list \<Rightarrow> LazyBrush \<Rightarrow> bool" where
  "contained [] lb = True"
| "contained (p # ps) lb =
     (getDistanceTo p (brush lb) \<le> radius lb \<and> contained ps (snd (update p no_options lb)))"

text \<open>The controllers that calls of the public methods can produce.\<close>

inductive reachable :: "LazyBrush \<Rightarrow> bool" where
  r_new: "reachable (constructor options)"
| r_enable: "reachable lb \<Longrightarrow> reachable (enable lb)"
| r_disable: "reachable lb \<Longrightarrow> reachable (disable lb)"
| r_setRadius: "reachable lb \<Longrightarrow> reachable (setRadius r lb)"
| r_update: "reachable lb \<Longrightarrow> reachable (snd (update p options lb))"

text \<open>
  The friction rule in the words of the specification, to compare with \<open>clamp_friction\<close>:
  a friction that is provided and below 1 is clamped into \<open>[0.01, 1]\<close>, any other is
  undefined.
\<close>

definition spec_friction :: "real option \<Rightarrow> real option" where
  "spec_friction fr =
     (case fr of
        None \<Rightarrow> None
      | Some f \<Rightarrow> if f < 1 then Some (min (max f 0.01) 1) else None)"

section \<open>Basic facts\<close>

lemma point_update_eq: "point_update (this :: Point) p = p"
  by (simp add: point_update_def)

lemma equalsTo_eq: "equalsTo (a :: Point) b = (a = b)"
  by (auto simp: equalsTo_def)

lemma Math_round_nonpos: "v \<le> 0 \<Longrightarrow> Math_round v \<le> 0"
  unfolding Math_round_def by (simp add: floor_le_iff)

lemma not_isOutside_within: "d \<le> r \<Longrightarrow> \<not> isOutside d r"
  using Math_round_nonpos [of "(d - r) * 10"]
  by (simp add: isOutside_def mult_le_0_iff)

lemma isOutside_iff: "isOutside d r = (1 / 20 \<le> d - r)"
proof -
  have "isOutside d r = (0 < \<lfloor>(d - r) * 10 + 1 / 2\<rfloor>)"
    by (simp add: isOutside_def Math_round_def)
  also have "\<dots> = (1 \<le> (d - r) * 10 + 1 / 2)"
    by (simp add: less_floor_iff)
  also have "\<dots> = (1 / 20 \<le> d - r)" by auto
  finally show ?thesis .
qed

lemma getDistanceTo_same_y: "p_y a = p_y b \<Longrightarrow> getDistanceTo a b = \<bar>p_x a - p_x b\<bar>"
  by (simp add: getDistanceTo_def)

lemma getDistanceTo_same_x: "p_x a = p_x b \<Longrightarrow> getDistanceTo a b = \<bar>p_y a - p_y b\<bar>"
  by (simp add: getDistanceTo_def)

lemma getAngleTo_east: "p_y a = p_y b \<Longrightarrow> p_x b < p_x a \<Longrightarrow> getAngleTo a b = 0"
  by (simp add: getAngleTo_def Math_atan2_def)

lemma origin_brush_fields:
  "priv_isEnabled (origin_brush en) = en"
  "priv_hasMoved (origin_brush en) = False"
  "radius (origin_brush en) = 30"
  "pointer (origin_brush en) = \<lparr>p_x = 0, p_y = 0\<rparr>"
  "brush (origin_brush en) = \<lparr>p_x = 0, p_y = 0\<rparr>"
  "angle (origin_brush en) = 0"
  "distance (origin_brush en) = 0"
  by (simp_all add: origin_brush_def constructor_def truthy_number_def LazyPoint_def Let_def)

lemma update_no_options_short:
  "update p no_options lb =
     (if pointer lb = p then (False, lb\<lparr>priv_hasMoved := False\<rparr>)
      else if priv_isEnabled lb
      then (True,
            if isOutside (getDistanceTo p (brush lb)) (radius lb)
            then lb\<lparr>priv_hasMoved := True, pointer := p,
                    distance := getDistanceTo p (brush lb),
                    angle := getAngleTo p (brush lb),
                    brush := moveByAngle (getAngleTo p (brush lb))
                               (getDistanceTo p (brush lb) - radius lb) None (brush lb)\<rparr>
            else lb\<lparr>priv_hasMoved := False, pointer := p,
                    distance := getDistanceTo p (brush lb),
                    angle := getAngleTo p (brush lb)\<rparr>)
      else (True, lb\<lparr>priv_hasMoved := True, pointer := p, distance := 0, angle := 0, brush := p\<rparr>))"
  by (simp add: update_def Let_def no_options_def truthy_bool_def truthy_number_def
      equalsTo_eq point_update_eq clamp_friction_def)

lemma clamp_friction_pos: "clamp_friction fr = Some f \<Longrightarrow> 0 < f"
  by (auto simp: clamp_friction_def truthy_number_def split: option.splits if_splits)

lemma clamp_friction_spec: "f \<noteq> 0 \<Longrightarrow> clamp_friction (Some f) = spec_friction (Some f)"
  by (simp add: clamp_friction_def spec_friction_def truthy_number_def)

lemma moveByAngle_moves:
  assumes "k \<noteq> 0" and "\<And>f. fr = Some f \<Longrightarrow> f \<noteq> 0"
  shows "moveByAngle a k fr b \<noteq> b"
proof
  assume eq: "moveByAngle a k fr b = b"
  obtain c where c: "c \<noteq> 0"
    and mv: "moveByAngle a k fr b = b\<lparr>p_x := p_x b + cos a * c, p_y := p_y b + sin a * c\<rparr>"
  proof (cases fr)
    case None
    with assms(1) that [of k] show thesis by (simp add: moveByAngle_def)
  next
    case (Some f)
    with assms that [of "k * f"] show thesis by (simp add: moveByAngle_def mult.assoc)
  qed
  from eq mv have "p_x b + cos a * c = p_x b" and "p_y b + sin a * c = p_y b"
    by (metis Point.select_convs(1) Point.surjective Point.update_convs(1) Point.update_convs(2),
        metis Point.select_convs(2) Point.surjective Point.update_convs(2))
  with c have "cos a = 0" and "sin a = 0" by simp_all
  with sin_cos_squared_add [of a] show False by simp
qed

lemma update_contained_step:
  assumes "priv_isEnabled lb" and "getDistanceTo p (brush lb) \<le> radius lb"
  shows "brush (snd (update p no_options lb)) = brush lb"
    and "\<not> priv_hasMoved (snd (update p no_options lb))"
    and "priv_isEnabled (snd (update p no_options lb))"
    and "radius (snd (update p no_options lb)) = radius lb"
  using assms not_isOutside_within [OF assms(2)]
  by (simp_all add: update_no_options_short)

section \<open>Forced sync\<close>

text \<open>
  C1: for every controller and every point \<open>p\<close>, \<open>update(p, {both: true})\<close> (whatever the
  friction option, the enabled flag and the radius are) returns \<open>true\<close>, makes the brush
  and the pointer equal to \<open>p\<close>, sets \<open>hasMoved\<close>, and leaves the stored distance and angle
  (and the radius and the enabled flag) as they were.
\<close>

theorem update_both_forced_sync:
  "fst (update p \<lparr>both = Some True, friction = fr\<rparr> lb) = True
   \<and> brush (snd (update p \<lparr>both = Some True, friction = fr\<rparr> lb)) = p
   \<and> pointer (snd (update p \<lparr>both = Some True, friction = fr\<rparr> lb)) = p
   \<and> brushHasMoved (snd (update p \<lparr>both = Some True, friction = fr\<rparr> lb)) = True
   \<and> getDistance (snd (update p \<lparr>both = Some True, friction = fr\<rparr> lb)) = getDistance lb
   \<and> getAngle (snd (update p \<lparr>both = Some True, friction = fr\<rparr> lb)) = getAngle lb
   \<and> getRadius (snd (update p \<lparr>both = Some True, friction = fr\<rparr> lb)) = getRadius lb
   \<and> isEnabled (snd (update p \<lparr>both = Some True, friction = fr\<rparr> lb)) = isEnabled lb"
  by (simp add: update_def Let_def truthy_bool_def point_update_eq brushHasMoved_def
      getDistance_def getAngle_def getRadius_def isEnabled_def)

theorem update_both_forced_sync_witness:
  "fst (update \<lparr>p_x = 100, p_y = 0\<rparr> \<lparr>both = Some True, friction = None\<rparr> (origin_brush True))
     = True
   \<and> brush (snd (update \<lparr>p_x = 100, p_y = 0\<rparr> \<lparr>both = Some True, friction = None\<rparr>
        (origin_brush True))) = \<lparr>p_x = 100, p_y = 0\<rparr>
   \<and> getDistance (snd (update \<lparr>p_x = 100, p_y = 0\<rparr> \<lparr>both = Some True, friction = None\<rparr>
        (origin_brush True))) = 0
   \<and> getAngle (snd (update \<lparr>p_x = 100, p_y = 0\<rparr> \<lparr>both = Some True, friction = None\<rparr>
        (origin_brush True))) = 0"
  using update_both_forced_sync [of "\<lparr>p_x = 100, p_y = 0\<rparr>" None "origin_brush True"]
  by (simp add: getDistance_def getAngle_def origin_brush_fields)

section \<open>Repeating a call\<close>

text \<open>
  After \<open>update(p)\<close> with lazy mode off, \<open>hasMoved\<close> is true; the repeated call
  \<open>update(p)\<close> takes the short-circuit, but only after its first statement has reset
  \<open>hasMoved\<close>. So the repeated call does change a component of the state.
\<close>

theorem update_repeat_counterexample:
  "brushHasMoved (snd (update \<lparr>p_x = 1, p_y = 0\<rparr> no_options (origin_brush False))) = True
   \<and> brushHasMoved (snd (update \<lparr>p_x = 1, p_y = 0\<rparr> no_options
        (snd (update \<lparr>p_x = 1, p_y = 0\<rparr> no_options (origin_brush False))))) = False
   \<and> snd (update \<lparr>p_x = 1, p_y = 0\<rparr> no_options
        (snd (update \<lparr>p_x = 1, p_y = 0\<rparr> no_options (origin_brush False))))
       \<noteq> snd (update \<lparr>p_x = 1, p_y = 0\<rparr> no_options (origin_brush False))"
proof -
  let ?lb1 = "snd (update \<lparr>p_x = 1, p_y = 0\<rparr> no_options (origin_brush False))"
  let ?lb2 = "snd (update \<lparr>p_x = 1, p_y = 0\<rparr> no_options ?lb1)"
  have a: "priv_hasMoved ?lb1 = True"
    by (simp add: update_no_options_short origin_brush_fields)
  have b: "priv_hasMoved ?lb2 = False"
    by (simp add: update_no_options_short origin_brush_fields)
  from a b have "?lb2 \<noteq> ?lb1" by metis
  with a b show ?thesis by (simp add: brushHasMoved_def)
qed

text \<open>
  C2 (amended): for every controller and point \<open>p\<close>, after a call \<open>update(p)\<close> a second
  immediate call \<open>update(p)\<close>, both without options, returns \<open>false\<close> and changes no
  component of the state other than \<open>hasMoved\<close>, which it resets to \<open>false\<close>: pointer,
  brush, radius, enabled flag, angle and distance are unchanged.
\<close>

theorem update_repeat_resets_hasMoved:
  "fst (update p no_options (snd (update p no_options lb))) = False
   \<and> snd (update p no_options (snd (update p no_options lb)))
       = (snd (update p no_options lb))\<lparr>priv_hasMoved := False\<rparr>"
  by (simp add: update_no_options_short)

theorem update_repeat_resets_hasMoved_witness:
  "fst (update \<lparr>p_x = 1, p_y = 0\<rparr> no_options
      (snd (update \<lparr>p_x = 1, p_y = 0\<rparr> no_options (origin_brush False)))) = False
   \<and> snd (update \<lparr>p_x = 1, p_y = 0\<rparr> no_options
      (snd (update \<lparr>p_x = 1, p_y = 0\<rparr> no_options (origin_brush False))))
     = (snd (update \<lparr>p_x = 1, p_y = 0\<rparr> no_options (origin_brush False)))\<lparr>priv_hasMoved := False\<rparr>"
  using update_repeat_resets_hasMoved [of "\<lparr>p_x = 1, p_y = 0\<rparr>" "origin_brush False"]
  by simp

section \<open>Lazy mode off\<close>

text \<open>
  C3: when the enabled flag is false, for every point \<open>p\<close> that differs from the current
  pointer position, \<open>update(p)\<close> without options returns \<open>true\<close>, makes the brush equal to
  \<open>p\<close>, sets distance and angle to 0 and \<open>hasMoved\<close> to true.
\<close>

theorem update_disabled_tracks:
  "\<not> isEnabled lb \<Longrightarrow> \<not> equalsTo (pointer lb) p \<Longrightarrow>
   fst (update p no_options lb) = True
   \<and> brush (snd (update p no_options lb)) = p
   \<and> getDistance (snd (update p no_options lb)) = 0
   \<and> getAngle (snd (update p no_options lb)) = 0
   \<and> brushHasMoved (snd (update p no_options lb)) = True"
  by (simp add: update_no_options_short equalsTo_eq isEnabled_def getDistance_def getAngle_def brushHasMoved_def)

theorem update_disabled_tracks_witness:
  "\<not> isEnabled (origin_brush False)
   \<and> \<not> equalsTo (pointer (origin_brush False)) \<lparr>p_x = 3, p_y = 4\<rparr>
   \<and> fst (update \<lparr>p_x = 3, p_y = 4\<rparr> no_options (origin_brush False)) = True
   \<and> brush (snd (update \<lparr>p_x = 3, p_y = 4\<rparr> no_options (origin_brush False))) = \<lparr>p_x = 3, p_y = 4\<rparr>
   \<and> getDistance (snd (update \<lparr>p_x = 3, p_y = 4\<rparr> no_options (origin_brush False))) = 0
   \<and> getAngle (snd (update \<lparr>p_x = 3, p_y = 4\<rparr> no_options (origin_brush False))) = 0
   \<and> brushHasMoved (snd (update \<lparr>p_x = 3, p_y = 4\<rparr> no_options (origin_brush False))) = True"
proof -
  have h1: "\<not> isEnabled (origin_brush False)"
    by (simp add: isEnabled_def origin_brush_fields)
  have h2: "\<not> equalsTo (pointer (origin_brush False)) \<lparr>p_x = 3, p_y = 4\<rparr>"
    by (simp add: equalsTo_def origin_brush_fields)
  show ?thesis
    using h1 h2 update_disabled_tracks [OF h1 h2] by simp
qed

text \<open>
  The invariant "brush equals pointer after any update while lazy mode is off" fails on a
  reachable controller: with lazy mode on, \<open>update({x: 10, y: 0})\<close> from the origin moves
  the pointer and leaves the brush inside the radius; after \<open>disable()\<close>, the call
  \<open>update({x: 10, y: 0})\<close> takes the short-circuit and the brush stays behind.
\<close>

theorem disabled_brush_pointer_counterexample:
  "reachable (disable (snd (update \<lparr>p_x = 10, p_y = 0\<rparr> no_options (origin_brush True))))
   \<and> \<not> isEnabled (disable (snd (update \<lparr>p_x = 10, p_y = 0\<rparr> no_options (origin_brush True))))
   \<and> brush (snd (update \<lparr>p_x = 10, p_y = 0\<rparr> no_options
        (disable (snd (update \<lparr>p_x = 10, p_y = 0\<rparr> no_options (origin_brush True))))))
      \<noteq> pointer (snd (update \<lparr>p_x = 10, p_y = 0\<rparr> no_options
        (disable (snd (update \<lparr>p_x = 10, p_y = 0\<rparr> no_options (origin_brush True))))))"
proof -
  let ?p = "\<lparr>p_x = 10, p_y = 0\<rparr> :: Point"
  let ?lb1 = "snd (update ?p no_options (origin_brush True))"
  have out: "\<not> isOutside (getDistanceTo ?p \<lparr>p_x = 0, p_y = 0\<rparr>) 30"
    by (simp add: isOutside_iff getDistanceTo_same_y)
  have p1: "pointer ?lb1 = ?p" and b1: "brush ?lb1 = \<lparr>p_x = 0, p_y = 0\<rparr>"
    using out by (simp_all add: update_no_options_short origin_brush_fields)
  have r: "reachable (disable ?lb1)"
    unfolding origin_brush_def by (intro reachable.intros)
  have e: "\<not> isEnabled (disable ?lb1)"
    by (simp add: isEnabled_def disable_def)
  have p2: "pointer (snd (update ?p no_options (disable ?lb1))) = ?p"
    using p1 by (simp add: update_no_options_short disable_def)
  have b2: "brush (snd (update ?p no_options (disable ?lb1))) = \<lparr>p_x = 0, p_y = 0\<rparr>"
    using p1 b1 by (simp add: update_no_options_short disable_def)
  show ?thesis using r e p2 b2 by simp
qed

text \<open>
  C4 (amended): whenever the enabled flag is false, immediately after any call
  \<open>update(p, options)\<close> that returns \<open>true\<close> (every call but the short-circuit) the brush
  equals the pointer, and both equal \<open>p\<close>; a call that returns \<open>false\<close> leaves brush and
  pointer as they were.
\<close>

theorem update_disabled_brush_follows:
  "\<not> isEnabled lb \<Longrightarrow>
   (fst (update p options lb) \<longrightarrow>
      brush (snd (update p options lb)) = pointer (snd (update p options lb))
      \<and> pointer (snd (update p options lb)) = p)
   \<and> (\<not> fst (update p options lb) \<longrightarrow>
      brush (snd (update p options lb)) = brush lb
      \<and> pointer (snd (update p options lb)) = pointer lb)"
  by (simp add: update_def Let_def isEnabled_def point_update_eq)

theorem update_disabled_brush_follows_witness:
  "\<not> isEnabled (origin_brush False)
   \<and> fst (update \<lparr>p_x = 3, p_y = 4\<rparr> no_options (origin_brush False))
   \<and> brush (snd (update \<lparr>p_x = 3, p_y = 4\<rparr> no_options (origin_brush False)))
       = pointer (snd (update \<lparr>p_x = 3, p_y = 4\<rparr> no_options (origin_brush False)))
   \<and> pointer (snd (update \<lparr>p_x = 3, p_y = 4\<rparr> no_options (origin_brush False)))
       = \<lparr>p_x = 3, p_y = 4\<rparr>"
proof -
  have h: "\<not> isEnabled (origin_brush False)"
    by (simp add: isEnabled_def origin_brush_fields)
  have f: "fst (update \<lparr>p_x = 3, p_y = 4\<rparr> no_options (origin_brush False))"
    by (simp add: update_no_options_short origin_brush_fields)
  show ?thesis
    using h f update_disabled_brush_follows [OF h, of "\<lparr>p_x = 3, p_y = 4\<rparr>" no_options]
    by simp
qed

section \<open>Lazy mode on\<close>

text \<open>
  C5: with radius 30, lazy mode on and pointer and brush at \<open>(0, 0)\<close>, the call
  \<open>update({x: 100, y: 0})\<close> without options returns \<open>true\<close>, sets the pointer to
  \<open>(100, 0)\<close>, moves the brush to exactly \<open>(70, 0)\<close>, so that the distance from pointer to
  brush equals the radius, and sets \<open>hasMoved\<close>.
\<close>

theorem update_boundary_snap:
  assumes "getRadius lb = 30" and "isEnabled lb"
    and "pointer lb = \<lparr>p_x = 0, p_y = 0\<rparr>" and "brush lb = \<lparr>p_x = 0, p_y = 0\<rparr>"
  shows "fst (update \<lparr>p_x = 100, p_y = 0\<rparr> no_options lb) = True
    \<and> pointer (snd (update \<lparr>p_x = 100, p_y = 0\<rparr> no_options lb)) = \<lparr>p_x = 100, p_y = 0\<rparr>
    \<and> brush (snd (update \<lparr>p_x = 100, p_y = 0\<rparr> no_options lb)) = \<lparr>p_x = 70, p_y = 0\<rparr>
    \<and> getDistanceTo (pointer (snd (update \<lparr>p_x = 100, p_y = 0\<rparr> no_options lb)))
         (brush (snd (update \<lparr>p_x = 100, p_y = 0\<rparr> no_options lb))) = getRadius lb
    \<and> brushHasMoved (snd (update \<lparr>p_x = 100, p_y = 0\<rparr> no_options lb)) = True"
  using assms
  by (simp add: update_no_options_short isOutside_iff getDistanceTo_same_y getAngleTo_east
      moveByAngle_def getRadius_def isEnabled_def brushHasMoved_def)

theorem update_boundary_snap_witness:
  "getRadius (origin_brush True) = 30 \<and> isEnabled (origin_brush True)
   \<and> pointer (origin_brush True) = \<lparr>p_x = 0, p_y = 0\<rparr>
   \<and> brush (origin_brush True) = \<lparr>p_x = 0, p_y = 0\<rparr>
   \<and> fst (update \<lparr>p_x = 100, p_y = 0\<rparr> no_options (origin_brush True)) = True
   \<and> getBrushCoordinates (snd (update \<lparr>p_x = 100, p_y = 0\<rparr> no_options (origin_brush True)))
       = \<lparr>p_x = 70, p_y = 0\<rparr>
   \<and> getPointerCoordinates (snd (update \<lparr>p_x = 100, p_y = 0\<rparr> no_options (origin_brush True)))
       = \<lparr>p_x = 100, p_y = 0\<rparr>
   \<and> brushHasMoved (snd (update \<lparr>p_x = 100, p_y = 0\<rparr> no_options (origin_brush True))) = True"
proof -
  have h1: "getRadius (origin_brush True) = 30" and h2: "isEnabled (origin_brush True)"
    by (simp_all add: getRadius_def isEnabled_def origin_brush_fields)
  have h3: "pointer (origin_brush True) = \<lparr>p_x = 0, p_y = 0\<rparr>"
    and h4: "brush (origin_brush True) = \<lparr>p_x = 0, p_y = 0\<rparr>"
    by (simp_all add: origin_brush_fields)
  show ?thesis
    using h1 h2 h3 h4 update_boundary_snap [OF h1 h2 h3 h4]
    by (simp add: getBrushCoordinates_def getPointerCoordinates_def toObject_def)
qed

text \<open>
  C6: for every sequence of calls \<open>update(p)\<close> without options on a controller with lazy
  mode on, if at every call the distance from the pointer to the brush is at most the
  radius, then after every call the brush is where it was at the start and \<open>hasMoved\<close> is
  false.
\<close>

theorem updates_contained_brush_fixed:
  "isEnabled lb \<Longrightarrow> contained ps lb \<Longrightarrow>
   list_all (\<lambda>lb'. brush lb' = brush lb \<and> \<not> brushHasMoved lb') (updates ps lb)"
proof (induction ps arbitrary: lb)
  case Nil
  show ?case by simp
next
  case (Cons p ps)
  let ?lb' = "snd (update p no_options lb)"
  from Cons.prems have en: "priv_isEnabled lb"
    and d: "getDistanceTo p (brush lb) \<le> radius lb" and rest: "contained ps ?lb'"
    by (simp_all add: isEnabled_def)
  note step = update_contained_step [OF en d]
  from step(3) have "isEnabled ?lb'" by (simp add: isEnabled_def)
  from Cons.IH [OF this rest] step(1)
  have "list_all (\<lambda>lb'. brush lb' = brush lb \<and> \<not> brushHasMoved lb') (updates ps ?lb')"
    by simp
  with step(1,2) show ?case by (simp add: Let_def brushHasMoved_def)
qed

theorem updates_contained_brush_fixed_witness:
  "isEnabled (origin_brush True)
   \<and> contained [\<lparr>p_x = 10, p_y = 0\<rparr>, \<lparr>p_x = 0, p_y = 30\<rparr>] (origin_brush True)
   \<and> list_all (\<lambda>lb'. brush lb' = brush (origin_brush True) \<and> \<not> brushHasMoved lb')
        (updates [\<lparr>p_x = 10, p_y = 0\<rparr>, \<lparr>p_x = 0, p_y = 30\<rparr>] (origin_brush True))"
proof -
  have h1: "isEnabled (origin_brush True)"
    by (simp add: isEnabled_def origin_brush_fields)
  have h2: "contained [\<lparr>p_x = 10, p_y = 0\<rparr>, \<lparr>p_x = 0, p_y = 30\<rparr>] (origin_brush True)"
    by (simp add: update_no_options_short origin_brush_fields isOutside_iff
        getDistanceTo_same_y getDistanceTo_same_x)
  show ?thesis
    using h1 h2 updates_contained_brush_fixed [OF h1 h2] by simp
qed

section \<open>Friction\<close>

text \<open>
  The friction value 0 is provided and below 1, and its clamp into \<open>[0.01, 1]\<close> is 0.01,
  which would advance the brush by \<open>70 * 0.01\<close>. But \<open>update\<close> tests the friction by
  truthiness, here as in the short-circuit, so 0 counts as not set: the friction is
  undefined and the displacement is applied in full, as without any friction.
\<close>

theorem friction_zero_counterexample:
  "spec_friction (Some 0) = Some (1 / 100)
   \<and> brush (snd (update \<lparr>p_x = 100, p_y = 0\<rparr> \<lparr>both = None, friction = Some 0\<rparr>
        (origin_brush True))) = \<lparr>p_x = 70, p_y = 0\<rparr>
   \<and> brush (snd (update \<lparr>p_x = 100, p_y = 0\<rparr> \<lparr>both = None, friction = None\<rparr>
        (origin_brush True))) = \<lparr>p_x = 70, p_y = 0\<rparr>
   \<and> moveByAngle (getAngleTo \<lparr>p_x = 100, p_y = 0\<rparr> (brush (origin_brush True)))
        (getDistanceTo \<lparr>p_x = 100, p_y = 0\<rparr> (brush (origin_brush True))
           - getRadius (origin_brush True))
        (spec_friction (Some 0)) (brush (origin_brush True)) = \<lparr>p_x = 7 / 10, p_y = 0\<rparr>
   \<and> brush (snd (update \<lparr>p_x = 100, p_y = 0\<rparr> \<lparr>both = None, friction = Some 0\<rparr>
        (origin_brush True)))
      \<noteq> moveByAngle (getAngleTo \<lparr>p_x = 100, p_y = 0\<rparr> (brush (origin_brush True)))
        (getDistanceTo \<lparr>p_x = 100, p_y = 0\<rparr> (brush (origin_brush True))
           - getRadius (origin_brush True))
        (spec_friction (Some 0)) (brush (origin_brush True))"
  by (simp add: update_def Let_def truthy_bool_def truthy_number_def equalsTo_def
      point_update_eq origin_brush_fields clamp_friction_def spec_friction_def isOutside_iff
      getDistanceTo_same_y getAngleTo_east moveByAngle_def getRadius_def)

text \<open>
  C7 (amended): in a lazy-mode update that moves the brush, for every provided friction
  value that is not 0 and is strictly less than 1, the friction applied to the brush
  displacement is the clamp of that value into \<open>[0.01, 1]\<close>; for every friction value
  greater than or equal to 1, for the value 0, and for no friction at all, the
  displacement is applied in full.
\<close>

theorem update_friction_effective:
  assumes "isEnabled lb" and "\<not> truthy_bool (both options)"
    and "fst (update p options lb)"
    and "isOutside (getDistanceTo p (brush lb)) (getRadius lb)"
  shows "case friction options of
           None \<Rightarrow>
             brush (snd (update p options lb))
               = moveByAngle (getAngleTo p (brush lb))
                   (getDistanceTo p (brush lb) - getRadius lb) None (brush lb)
         | Some f \<Rightarrow>
             if f = 0 \<or> 1 \<le> f
             then brush (snd (update p options lb))
                    = moveByAngle (getAngleTo p (brush lb))
                        (getDistanceTo p (brush lb) - getRadius lb) None (brush lb)
             else brush (snd (update p options lb))
                    = moveByAngle (getAngleTo p (brush lb))
                        (getDistanceTo p (brush lb) - getRadius lb)
                        (spec_friction (Some f)) (brush lb)
                  \<and> spec_friction (Some f) = Some (min (max f 0.01) 1)
                  \<and> 0.01 \<le> min (max f 0.01) 1 \<and> min (max f 0.01) 1 \<le> 1"
proof -
  let ?d = "getDistanceTo p (brush lb)"
  have upd: "brush (snd (update p options lb))
      = moveByAngle (getAngleTo p (brush lb)) (?d - radius lb)
          (clamp_friction (friction options)) (brush lb)"
    using assms
    by (auto simp: update_def Let_def isEnabled_def getRadius_def point_update_eq
        split: if_splits)
  show ?thesis
  proof (cases "friction options")
    case None
    then show ?thesis by (simp add: upd clamp_friction_def getRadius_def)
  next
    case (Some f)
    show ?thesis
    proof (cases "f = 0 \<or> 1 \<le> f")
      case True
      with Some show ?thesis
        by (auto simp: upd clamp_friction_def truthy_number_def getRadius_def)
    next
      case False
      then have "clamp_friction (Some f) = spec_friction (Some f)"
        by (simp add: clamp_friction_spec)
      with Some False show ?thesis
        by (simp add: upd getRadius_def spec_friction_def)
    qed
  qed
qed

theorem update_friction_effective_witness:
  "isEnabled (origin_brush True)
   \<and> \<not> truthy_bool (both \<lparr>both = None, friction = Some (1 / 2)\<rparr>)
   \<and> fst (update \<lparr>p_x = 100, p_y = 0\<rparr> \<lparr>both = None, friction = Some (1 / 2)\<rparr>
        (origin_brush True))
   \<and> isOutside (getDistanceTo \<lparr>p_x = 100, p_y = 0\<rparr> (brush (origin_brush True)))
        (getRadius (origin_brush True))
   \<and> brush (snd (update \<lparr>p_x = 100, p_y = 0\<rparr> \<lparr>both = None, friction = Some (1 / 2)\<rparr>
        (origin_brush True))) = \<lparr>p_x = 35, p_y = 0\<rparr>"
proof -
  let ?p = "\<lparr>p_x = 100, p_y = 0\<rparr> :: Point"
  let ?o = "\<lparr>both = None, friction = Some (1 / 2)\<rparr> :: LazyBrushUpdateOptions"
  have h1: "isEnabled (origin_brush True)"
    by (simp add: isEnabled_def origin_brush_fields)
  have h2: "\<not> truthy_bool (both ?o)"
    by (simp add: truthy_bool_def)
  have h3: "fst (update ?p ?o (origin_brush True))"
    by (simp add: update_def Let_def truthy_bool_def truthy_number_def equalsTo_def
        origin_brush_fields)
  have h4: "isOutside (getDistanceTo ?p (brush (origin_brush True)))
      (getRadius (origin_brush True))"
    by (simp add: isOutside_iff getRadius_def origin_brush_fields getDistanceTo_same_y)
  show ?thesis
    using h1 h2 h3 h4 update_friction_effective [OF h1 h2 h3 h4]
    by (simp add: spec_friction_def moveByAngle_def getAngleTo_east getDistanceTo_same_y
        getRadius_def origin_brush_fields)
qed

section \<open>Radius zero or negative\<close>

text \<open>
  With radius 0 and the pointer moved to \<open>(1/32, 0)\<close>, the distance to the brush is
  positive, but \<open>(distance - radius) * 10\<close> rounds to 0: the pointer changes and the brush
  does not move.
\<close>

theorem nonpositive_radius_counterexample:
  "getRadius (setRadius 0 (origin_brush True)) \<le> 0
   \<and> isEnabled (setRadius 0 (origin_brush True))
   \<and> 0 < getDistanceTo \<lparr>p_x = 1 / 32, p_y = 0\<rparr> (brush (setRadius 0 (origin_brush True)))
   \<and> \<not> isOutside (getDistanceTo \<lparr>p_x = 1 / 32, p_y = 0\<rparr> (brush (setRadius 0 (origin_brush True))))
          (getRadius (setRadius 0 (origin_brush True)))
   \<and> fst (update \<lparr>p_x = 1 / 32, p_y = 0\<rparr> no_options (setRadius 0 (origin_brush True)))
   \<and> pointer (snd (update \<lparr>p_x = 1 / 32, p_y = 0\<rparr> no_options (setRadius 0 (origin_brush True))))
        \<noteq> pointer (setRadius 0 (origin_brush True))
   \<and> brush (snd (update \<lparr>p_x = 1 / 32, p_y = 0\<rparr> no_options (setRadius 0 (origin_brush True))))
        = brush (setRadius 0 (origin_brush True))
   \<and> \<not> brushHasMoved (snd (update \<lparr>p_x = 1 / 32, p_y = 0\<rparr> no_options
          (setRadius 0 (origin_brush True))))"
  by (simp add: update_no_options_short setRadius_def getRadius_def isEnabled_def
      brushHasMoved_def origin_brush_fields isOutside_iff getDistanceTo_same_y)

text \<open>
  C8 (amended): when the radius is zero or negative, the outside-radius test of a lazy-mode
  update is true exactly when the distance from the new pointer position to the brush
  exceeds the radius by at least 0.05 (the difference is rounded to one decimal place);
  so every update without \<open>both\<close> that changes the pointer moves the brush when
  \<open>distance - radius \<ge> 0.05\<close>, and leaves it in place otherwise.
\<close>

theorem update_nonpositive_radius:
  assumes "isEnabled lb" and "getRadius lb \<le> 0"
    and "\<not> truthy_bool (both options)" and "pointer lb \<noteq> p"
  shows "isOutside (getDistanceTo p (brush lb)) (getRadius lb)
           = (1 / 20 \<le> getDistanceTo p (brush lb) - getRadius lb)
    \<and> (if 1 / 20 \<le> getDistanceTo p (brush lb) - getRadius lb
        then brushHasMoved (snd (update p options lb))
             \<and> brush (snd (update p options lb)) \<noteq> brush lb
        else \<not> brushHasMoved (snd (update p options lb))
             \<and> brush (snd (update p options lb)) = brush lb)"
proof -
  let ?d = "getDistanceTo p (brush lb)"
  let ?fr = "clamp_friction (friction options)"
  have upd: "snd (update p options lb) =
      (if isOutside ?d (radius lb)
       then lb\<lparr>priv_hasMoved := True, pointer := p, distance := ?d,
               angle := getAngleTo p (brush lb),
               brush := moveByAngle (getAngleTo p (brush lb)) (?d - radius lb) ?fr (brush lb)\<rparr>
       else lb\<lparr>priv_hasMoved := False, pointer := p, distance := ?d,
               angle := getAngleTo p (brush lb)\<rparr>)"
    using assms(1,3,4)
    by (simp add: update_def Let_def isEnabled_def equalsTo_eq point_update_eq)
  show ?thesis
  proof (cases "1 / 20 \<le> ?d - getRadius lb")
    case True
    then have k: "?d - radius lb \<noteq> 0" by (simp add: getRadius_def)
    have "moveByAngle (getAngleTo p (brush lb)) (?d - radius lb) ?fr (brush lb) \<noteq> brush lb"
      using k clamp_friction_pos [of "friction options"]
      by (intro moveByAngle_moves) auto
    with True show ?thesis
      by (simp add: upd isOutside_iff getRadius_def brushHasMoved_def)
  next
    case False
    then show ?thesis
      by (simp add: upd isOutside_iff getRadius_def brushHasMoved_def)
  qed
qed

theorem update_nonpositive_radius_witness:
  "isEnabled (setRadius 0 (origin_brush True))
   \<and> getRadius (setRadius 0 (origin_brush True)) \<le> 0
   \<and> \<not> truthy_bool (both no_options)
   \<and> pointer (setRadius 0 (origin_brush True)) \<noteq> \<lparr>p_x = 1, p_y = 0\<rparr>
   \<and> isOutside (getDistanceTo \<lparr>p_x = 1, p_y = 0\<rparr> (brush (setRadius 0 (origin_brush True))))
        (getRadius (setRadius 0 (origin_brush True)))
   \<and> brushHasMoved (snd (update \<lparr>p_x = 1, p_y = 0\<rparr> no_options (setRadius 0 (origin_brush True))))
   \<and> brush (snd (update \<lparr>p_x = 1, p_y = 0\<rparr> no_options (setRadius 0 (origin_brush True))))
        \<noteq> brush (setRadius 0 (origin_brush True))"
proof -
  let ?lb = "setRadius 0 (origin_brush True)"
  have h1: "isEnabled ?lb" and h2: "getRadius ?lb \<le> 0"
    by (simp_all add: isEnabled_def getRadius_def setRadius_def origin_brush_fields)
  have h3: "\<not> truthy_bool (both no_options)"
    by (simp add: no_options_def truthy_bool_def)
  have h4: "pointer ?lb \<noteq> \<lparr>p_x = 1, p_y = 0\<rparr>"
    by (simp add: setRadius_def origin_brush_fields)
  have d: "getDistanceTo \<lparr>p_x = 1, p_y = 0\<rparr> (brush ?lb) - getRadius ?lb = 1"
    by (simp add: getRadius_def setRadius_def origin_brush_fields getDistanceTo_same_y)
  show ?thesis
    using h1 h2 h3 h4 d update_nonpositive_radius [OF h1 h2 h3 h4] by simp
qed

section \<open>The result of update\<close>

text \<open>
  The result is not "some component changed", in either direction: a repeated
  \<open>update(p)\<close> with lazy mode off returns \<open>false\<close> and has reset \<open>hasMoved\<close>; a repeated
  \<open>update(p, {both: true})\<close> returns \<open>true\<close> and leaves the controller exactly as it was.
\<close>

theorem update_result_counterexample:
  "fst (update \<lparr>p_x = 1, p_y = 0\<rparr> no_options
       (snd (update \<lparr>p_x = 1, p_y = 0\<rparr> no_options (origin_brush False)))) = False
   \<and> snd (update \<lparr>p_x = 1, p_y = 0\<rparr> no_options
       (snd (update \<lparr>p_x = 1, p_y = 0\<rparr> no_options (origin_brush False))))
      \<noteq> snd (update \<lparr>p_x = 1, p_y = 0\<rparr> no_options (origin_brush False))
   \<and> fst (update \<lparr>p_x = 1, p_y = 0\<rparr> \<lparr>both = Some True, friction = None\<rparr>
       (snd (update \<lparr>p_x = 1, p_y = 0\<rparr> \<lparr>both = Some True, friction = None\<rparr>
          (origin_brush False)))) = True
   \<and> snd (update \<lparr>p_x = 1, p_y = 0\<rparr> \<lparr>both = Some True, friction = None\<rparr>
       (snd (update \<lparr>p_x = 1, p_y = 0\<rparr> \<lparr>both = Some True, friction = None\<rparr>
          (origin_brush False))))
      = snd (update \<lparr>p_x = 1, p_y = 0\<rparr> \<lparr>both = Some True, friction = None\<rparr>
          (origin_brush False))"
proof -
  let ?p = "\<lparr>p_x = 1, p_y = 0\<rparr> :: Point"
  let ?lb1 = "snd (update ?p no_options (origin_brush False))"
  let ?lb2 = "snd (update ?p no_options ?lb1)"
  have a: "priv_hasMoved ?lb1" and b: "\<not> priv_hasMoved ?lb2"
    by (simp_all add: update_no_options_short origin_brush_fields)
  then have ne: "?lb2 \<noteq> ?lb1" by metis
  have f: "fst (update ?p no_options ?lb1) = False"
    by (simp add: update_no_options_short origin_brush_fields)
  have g: "\<And>lb. update ?p \<lparr>both = Some True, friction = None\<rparr> lb
            = (True, lb\<lparr>priv_hasMoved := True, pointer := ?p, brush := ?p\<rparr>)"
    by (simp add: update_def Let_def truthy_bool_def point_update_eq)
  show ?thesis using ne f by (simp add: g)
qed

text \<open>
  C9 (amended): for every controller, point and options, \<open>update\<close> returns \<open>false\<close>
  exactly when the point equals the current pointer position and neither \<open>both\<close> nor
  \<open>friction\<close> is truthy; such a call changes no component other than \<open>hasMoved\<close>, which
  it resets to \<open>false\<close>. Every other call returns \<open>true\<close>.
\<close>

theorem update_false_iff_short_circuit:
  "fst (update p options lb)
     = (\<not> (equalsTo (pointer lb) p \<and> \<not> truthy_bool (both options)
           \<and> \<not> truthy_number (friction options)))
   \<and> (\<not> fst (update p options lb) \<longrightarrow>
        snd (update p options lb) = lb\<lparr>priv_hasMoved := False\<rparr>)"
  by (simp add: update_def Let_def)

theorem update_false_iff_short_circuit_witness:
  "equalsTo (pointer (origin_brush True)) \<lparr>p_x = 0, p_y = 0\<rparr>
   \<and> fst (update \<lparr>p_x = 0, p_y = 0\<rparr> no_options (origin_brush True)) = False
   \<and> snd (update \<lparr>p_x = 0, p_y = 0\<rparr> no_options (origin_brush True))
       = (origin_brush True)\<lparr>priv_hasMoved := False\<rparr>
   \<and> fst (update \<lparr>p_x = 0, p_y = 0\<rparr> \<lparr>both = None, friction = Some (1 / 2)\<rparr>
        (origin_brush True)) = True"
  using update_false_iff_short_circuit [of "\<lparr>p_x = 0, p_y = 0\<rparr>" no_options "origin_brush True"]
    update_false_iff_short_circuit
      [of "\<lparr>p_x = 0, p_y = 0\<rparr>" "\<lparr>both = None, friction = Some (1 / 2)\<rparr>" "origin_brush True"]
  by (simp add: equalsTo_def origin_brush_fields no_options_def truthy_bool_def truthy_number_def)

section \<open>Construction\<close>

text \<open>
  C10: a controller constructed with the option \<open>radius\<close> equal to 0 has radius 30, the
  default (the falsy option falls through \<open>options.radius || RADIUS_DEFAULT\<close>), whereas
  \<open>setRadius(0)\<close> stores 0.
\<close>

theorem constructor_radius_zero_default:
  "getRadius (constructor \<lparr>opt_radius = Some 0, opt_enabled = en, opt_initialPoint = ip\<rparr>)
     = RADIUS_DEFAULT
   \<and> RADIUS_DEFAULT = 30
   \<and> getRadius (setRadius 0 lb) = 0"
  by (simp add: constructor_def Let_def getRadius_def setRadius_def truthy_number_def
      RADIUS_DEFAULT_def)

theorem constructor_radius_zero_default_witness:
  "getRadius (constructor \<lparr>opt_radius = Some 0, opt_enabled = None, opt_initialPoint = None\<rparr>) = 30
   \<and> getRadius (setRadius 0
        (constructor \<lparr>opt_radius = Some 0, opt_enabled = None, opt_initialPoint = None\<rparr>)) = 0"
  using constructor_radius_zero_default [of None None
      "constructor \<lparr>opt_radius = Some 0, opt_enabled = None, opt_initialPoint = None\<rparr>"]
  by simp

end
